theory Spec2Isabelle
  imports Complex_Main
begin

section \<open>JavaScript values and the platform's JSON object\<close>

text \<open>
  The views of the data-forwarding feature are TypeScript components. The values they
  handle at run time are JavaScript values: what \<^verbatim>\<open>JSON.parse\<close> returns is not
  constrained by the TypeScript interfaces, so the embedding works on untyped values.
  An object is an association list in property order; \<open>JUndefined\<close> is the value of a
  missing property. A number is a rational, which every finite double is. A string is the
  list of the bytes of its UTF-8 encoding, so that text in any script is a string.

  The components never compute with a number and never look into a string: they test
  values for truthiness and pass them on. What turns values into text and back is the
  platform: \<^verbatim>\<open>JSON.parse\<close>, \<^verbatim>\<open>JSON.stringify\<close> and the conversion of a number to a
  string. The functions of the components take these three as parameters, and the
  properties below hold for every platform, or state what they need of it. A reference
  implementation of the three is given for the concrete instances.
\<close>

datatype jsval =
    JUndefined
  | JNull
  | JBool bool
  | JNum rat
  | JStr string
  | JArr "jsval list"
  | JObj "(string \<times> jsval) list"

datatype js_error = TypeError | SyntaxError | ValidationError | Rejection

text \<open>
  A completion of a function body: it returns normally in a state, or it throws with the
  state reached at the throw.
\<close>

datatype 's completion = Normal 's | Throw js_error 's

text \<open>Truthiness (\<^verbatim>\<open>ToBoolean\<close>), \<^verbatim>\<open>a || b\<close> and \<^verbatim>\<open>a ?? b\<close>.\<close>

fun truthy :: "jsval \<Rightarrow> bool" where
  "truthy JUndefined = False"
| "truthy JNull = False"
| "truthy (JBool b) = b"
| "truthy (JNum n) = (n \<noteq> 0)"
| "truthy (JStr s) = (s \<noteq> [])"
| "truthy (JArr vs) = True"
| "truthy (JObj kvs) = True"

definition js_or :: "jsval \<Rightarrow> jsval \<Rightarrow> jsval" where
  "js_or a b = (if truthy a then a else b)"

definition nullish :: "jsval \<Rightarrow> bool" where
  "nullish v = (v = JNull \<or> v = JUndefined)"

definition js_coalesce :: "jsval \<Rightarrow> jsval \<Rightarrow> jsval" where
  "js_coalesce a b = (if nullish a then b else a)"

text \<open>
  Reading a property \<^verbatim>\<open>v.k\<close> of a value that is neither \<^verbatim>\<open>null\<close> nor
  \<^verbatim>\<open>undefined\<close> (on those the read throws a TypeError, which the callers below test
  for before reading). No prototype of a primitive or of an array has a property with one
  of the configuration keys, so only objects answer.
\<close>

fun get_prop :: "jsval \<Rightarrow> string \<Rightarrow> jsval" where
  "get_prop (JObj kvs) k = (case map_of kvs k of None \<Rightarrow> JUndefined | Some v \<Rightarrow> v)"
| "get_prop v k = JUndefined"

subsection \<open>Decimal numerals\<close>

definition digit_char :: "nat \<Rightarrow> char" where
  "digit_char d = char_of (48 + d)"

function nat_digits :: "nat \<Rightarrow> string" where
  "nat_digits n = (if n < 10 then [digit_char n] else nat_digits (n div 10) @ [digit_char (n mod 10)])"
  by pat_completeness auto
termination
  by (relation "measure (\<lambda>n. n)") auto

declare nat_digits.simps [simp del]

definition show_int :: "int \<Rightarrow> string" where
  "show_int i = (if i < 0 then CHR ''-'' # nat_digits (nat (- i)) else nat_digits (nat i))"

subsection \<open>String conversion in a template literal\<close>

fun join :: "string \<Rightarrow> string list \<Rightarrow> string" where
  "join sep [] = []"
| "join sep [x] = x"
| "join sep (x # y # ys) = x @ sep @ join sep (y # ys)"

text \<open>
  \<^verbatim>\<open>ToString\<close>, as \<^verbatim>\<open>`${v}`\<close> applies it to a value that \<^verbatim>\<open>JSON.parse\<close> returned;
  \<open>None\<close> is the TypeError it throws. \<open>nt\<close> is the platform's conversion of a number.
  An array is joined with commas, \<^verbatim>\<open>null\<close> elements giving the empty string. An object
  has no callable property of its own, so one with an own \<^verbatim>\<open>toString\<close> property cannot
  be converted (its \<^verbatim>\<open>valueOf\<close>, own or inherited, does not give a primitive either),
  and any other gets the inherited \<^verbatim>\<open>Object.prototype.toString\<close>.
\<close>

fun js_to_string :: "(rat \<Rightarrow> string) \<Rightarrow> jsval \<Rightarrow> string option" where
  "js_to_string nt JUndefined = Some ''undefined''"
| "js_to_string nt JNull = Some ''null''"
| "js_to_string nt (JBool b) = Some (if b then ''true'' else ''false'')"
| "js_to_string nt (JNum q) = Some (nt q)"
| "js_to_string nt (JStr s) = Some s"
| "js_to_string nt (JArr vs) =
     map_option (join '','')
       (those (map (\<lambda>v. if nullish v then Some [] else js_to_string nt v) vs))"
| "js_to_string nt (JObj kvs) =
     (if ''toString'' \<in> set (map fst kvs) then None else Some ''[object Object]'')"

subsection \<open>A reference conversion of numbers\<close>

text \<open>
  An integer is written in decimal, and any other number in plain decimal notation,
  digit by digit. (The platform writes the shortest decimal that reads back as the same
  double, and uses an exponent for the largest and the smallest magnitudes.)
\<close>

fun fraction_digits :: "nat \<Rightarrow> rat \<Rightarrow> string" where
  "fraction_digits 0 r = []"
| "fraction_digits (Suc n) r =
     (if r = 0 then []
      else digit_char (nat \<lfloor>10 * r\<rfloor>) # fraction_digits n (10 * r - of_int \<lfloor>10 * r\<rfloor>))"

definition number_text :: "rat \<Rightarrow> string" where
  "number_text q =
     (if q = of_int \<lfloor>q\<rfloor> then show_int \<lfloor>q\<rfloor>
      else (if q < 0 then ''-'' else []) @ nat_digits (nat \<lfloor>\<bar>q\<bar>\<rfloor>) @ ''.'' @
           fraction_digits (nat (snd (quotient_of q))) (frac \<bar>q\<bar>))"

subsection \<open>JSON.stringify\<close>

definition hex_char :: "nat \<Rightarrow> char" where
  "hex_char d = (if d < 10 then char_of (48 + d) else char_of (87 + d))"

text \<open>
  \<^verbatim>\<open>QuoteJSONString\<close>, byte by byte: the quote, the backslash and the control characters
  are escaped, and every other byte, so every byte of a character beyond ASCII, is written
  as it is.
\<close>

definition escape_char :: "char \<Rightarrow> string" where
  "escape_char c =
     (if c = CHR 0x22 then [CHR 0x5C, CHR 0x22]
      else if c = CHR 0x5C then [CHR 0x5C, CHR 0x5C]
      else if c = CHR 0x08 then [CHR 0x5C, CHR ''b'']
      else if c = CHR 0x0C then [CHR 0x5C, CHR ''f'']
      else if c = CHR 0x0A then [CHR 0x5C, CHR ''n'']
      else if c = CHR 0x0D then [CHR 0x5C, CHR ''r'']
      else if c = CHR 0x09 then [CHR 0x5C, CHR ''t'']
      else if (of_char c :: nat) < 32
        then [CHR 0x5C, CHR ''u'', CHR ''0'', CHR ''0'',
              hex_char (of_char c div 16), hex_char (of_char c mod 16)]
      else [c])"

definition quote :: "string \<Rightarrow> string" where
  "quote s = CHR 0x22 # concat (map escape_char s) @ [CHR 0x22]"

text \<open>
  \<^verbatim>\<open>SerializeJSONProperty\<close> without indentation: a property whose value is
  \<^verbatim>\<open>undefined\<close> is left out of an object, and an \<^verbatim>\<open>undefined\<close> array element is
  written \<^verbatim>\<open>null\<close>.
\<close>

fun ser :: "jsval \<Rightarrow> string" where
  "ser JUndefined = ''null''"
| "ser JNull = ''null''"
| "ser (JBool b) = (if b then ''true'' else ''false'')"
| "ser (JNum q) = number_text q"
| "ser (JStr s) = quote s"
| "ser (JArr vs) = ''['' @ join '','' (map ser vs) @ '']''"
| "ser (JObj kvs) =
     ''{'' @ join '','' (map (\<lambda>(k, v). quote k @ '':'' @ ser v)
                          (filter (\<lambda>(k, v). v \<noteq> JUndefined) kvs)) @ ''}''"

text \<open>
  The reference \<^verbatim>\<open>JSON.stringify(v)\<close>, for the values the views pass, which are objects.
\<close>

definition JSON_stringify :: "jsval \<Rightarrow> string" where
  "JSON_stringify v = ser v"

subsection \<open>JSON.parse\<close>

definition is_ws :: "char \<Rightarrow> bool" where
  "is_ws c = (c = CHR 0x20 \<or> c = CHR 0x09 \<or> c = CHR 0x0A \<or> c = CHR 0x0D)"

definition skip_ws :: "string \<Rightarrow> string" where
  "skip_ws s = dropWhile is_ws s"

definition is_digit :: "char \<Rightarrow> bool" where
  "is_digit c = (48 \<le> (of_char c :: nat) \<and> (of_char c :: nat) \<le> 57)"

definition digit_val :: "char \<Rightarrow> nat" where
  "digit_val c = of_char c - 48"

definition hex_val :: "char \<Rightarrow> nat option" where
  "hex_val c =
     (let n = (of_char c :: nat) in
      if 48 \<le> n \<and> n \<le> 57 then Some (n - 48)
      else if 97 \<le> n \<and> n \<le> 102 then Some (n - 87)
      else if 65 \<le> n \<and> n \<le> 70 then Some (n - 55)
      else None)"

definition unescape :: "char \<Rightarrow> char option" where
  "unescape e =
     (if e = CHR 0x22 then Some (CHR 0x22)
      else if e = CHR 0x5C then Some (CHR 0x5C)
      else if e = CHR ''/'' then Some (CHR ''/'')
      else if e = CHR ''b'' then Some (CHR 0x08)
      else if e = CHR ''f'' then Some (CHR 0x0C)
      else if e = CHR ''n'' then Some (CHR 0x0A)
      else if e = CHR ''r'' then Some (CHR 0x0D)
      else if e = CHR ''t'' then Some (CHR 0x09)
      else None)"

definition prepend :: "string \<Rightarrow> (string \<times> string) option \<Rightarrow> (string \<times> string) option" where
  "prepend u r = (case r of None \<Rightarrow> None | Some (s, rest) \<Rightarrow> Some (u @ s, rest))"

definition hex4 :: "char \<Rightarrow> char \<Rightarrow> char \<Rightarrow> char \<Rightarrow> nat option" where
  "hex4 a b c d =
     (case (hex_val a, hex_val b, hex_val c, hex_val d) of
        (Some x, Some y, Some z, Some w) \<Rightarrow> Some (4096 * x + 256 * y + 16 * z + w)
      | _ \<Rightarrow> None)"

text \<open>The bytes of the UTF-8 encoding of a code point.\<close>

definition utf8 :: "nat \<Rightarrow> string" where
  "utf8 cp =
     (if cp < 128 then [char_of cp]
      else if cp < 2048 then [char_of (192 + cp div 64), char_of (128 + cp mod 64)]
      else if cp < 65536 then
        [char_of (224 + cp div 4096), char_of (128 + (cp div 64) mod 64),
         char_of (128 + cp mod 64)]
      else
        [char_of (240 + cp div 262144), char_of (128 + (cp div 4096) mod 64),
         char_of (128 + (cp div 64) mod 64), char_of (128 + cp mod 64)])"

text \<open>
  The characters of a string literal after its opening quote, up to the closing quote.
  An escape \<^verbatim>\<open>\uXXXX\<close> gives the bytes of its code point, a high surrogate followed by
  the escape of a low one giving the code point of the pair. A surrogate that stands alone
  has no UTF-8 encoding: the strings of this model do not have it, and the literal is
  refused.
\<close>

fun parse_chars :: "string \<Rightarrow> (string \<times> string) option" where
  "parse_chars [] = None"
| "parse_chars (c # cs) =
     (if c = CHR 0x22 then Some ([], cs)
      else if c = CHR 0x5C then
        (case cs of
           [] \<Rightarrow> None
         | e # cs1 \<Rightarrow>
             if e = CHR ''u'' then
               (case cs1 of
                  a # b # x # y # cs2 \<Rightarrow>
                    (case hex4 a b x y of
                       None \<Rightarrow> None
                     | Some hi \<Rightarrow>
                         if 55296 \<le> hi \<and> hi < 56320 then
                           (case cs2 of
                              bs # u # a2 # b2 # x2 # y2 # cs3 \<Rightarrow>
                                if bs = CHR 0x5C \<and> u = CHR ''u'' then
                                  (case hex4 a2 b2 x2 y2 of
                                     None \<Rightarrow> None
                                   | Some lo \<Rightarrow>
                                       if 56320 \<le> lo \<and> lo < 57344
                                       then prepend
                                              (utf8 (65536 + 1024 * (hi - 55296) + (lo - 56320)))
                                              (parse_chars cs3)
                                       else None)
                                else None
                            | _ \<Rightarrow> None)
                         else if 56320 \<le> hi \<and> hi < 57344 then None
                         else prepend (utf8 hi) (parse_chars cs2))
                | _ \<Rightarrow> None)
             else
               (case unescape e of
                  None \<Rightarrow> None
                | Some u \<Rightarrow> prepend [u] (parse_chars cs1)))
      else if (of_char c :: nat) < 32 then None
      else prepend [c] (parse_chars cs))"

definition digits_val :: "string \<Rightarrow> nat" where
  "digits_val ds = foldl (\<lambda>a d. 10 * a + digit_val d) 0 ds"

text \<open>
  A number literal: an optional minus sign, then \<^verbatim>\<open>0\<close> or a digit sequence without a
  leading zero, then an optional fraction and an optional exponent. The reference parser
  keeps the value of the literal exactly. (The platform rounds it to the nearest double.)
\<close>

definition parse_nat :: "string \<Rightarrow> (nat \<times> string) option" where
  "parse_nat s =
     (let ds = takeWhile is_digit s; rest = dropWhile is_digit s in
      if ds = [] then None
      else if hd ds = CHR ''0'' \<and> tl ds \<noteq> [] then None
      else Some (digits_val ds, rest))"

definition parse_fraction :: "string \<Rightarrow> (rat \<times> string) option" where
  "parse_fraction s =
     (case s of
        [] \<Rightarrow> Some (0, [])
      | c # cs \<Rightarrow>
          if c = CHR ''.'' then
            (let ds = takeWhile is_digit cs in
             if ds = [] then None
             else Some (of_nat (digits_val ds) / 10 ^ length ds, dropWhile is_digit cs))
          else Some (0, s))"

definition exponent_digits :: "int \<Rightarrow> string \<Rightarrow> (int \<times> string) option" where
  "exponent_digits sign s =
     (let ds = takeWhile is_digit s in
      if ds = [] then None else Some (sign * int (digits_val ds), dropWhile is_digit s))"

definition parse_exponent :: "string \<Rightarrow> (int \<times> string) option" where
  "parse_exponent s =
     (case s of
        [] \<Rightarrow> Some (0, [])
      | c # cs \<Rightarrow>
          if c = CHR ''e'' \<or> c = CHR ''E'' then
            (case cs of
               [] \<Rightarrow> None
             | d # ds \<Rightarrow>
                 if d = CHR ''-'' then exponent_digits (- 1) ds
                 else if d = CHR ''+'' then exponent_digits 1 ds
                 else exponent_digits 1 cs)
          else Some (0, s))"

definition scale10 :: "rat \<Rightarrow> int \<Rightarrow> rat" where
  "scale10 q e = (if 0 \<le> e then q * 10 ^ nat e else q / 10 ^ nat (- e))"

definition parse_unsigned :: "string \<Rightarrow> (rat \<times> string) option" where
  "parse_unsigned s =
     (case parse_nat s of
        None \<Rightarrow> None
      | Some (n, r1) \<Rightarrow>
          (case parse_fraction r1 of
             None \<Rightarrow> None
           | Some (f, r2) \<Rightarrow>
               (case parse_exponent r2 of
                  None \<Rightarrow> None
                | Some (e, r3) \<Rightarrow> Some (scale10 (of_nat n + f) e, r3))))"

definition parse_number :: "string \<Rightarrow> (jsval \<times> string) option" where
  "parse_number s =
     (case s of
        [] \<Rightarrow> None
      | c # cs \<Rightarrow>
          if c = CHR ''-'' then
            (case parse_unsigned cs of None \<Rightarrow> None | Some (q, rest) \<Rightarrow> Some (JNum (- q), rest))
          else
            (case parse_unsigned s of None \<Rightarrow> None | Some (q, rest) \<Rightarrow> Some (JNum q, rest)))"

definition literal :: "string \<Rightarrow> jsval \<Rightarrow> string \<Rightarrow> (jsval \<times> string) option" where
  "literal w v s = (if take (length w) s = w then Some (v, drop (length w) s) else None)"

text \<open>
  Assigning a property while an object literal is read: a key that is already there keeps
  its place and takes the new value, a new key goes to the end. (The platform lists keys
  that are array indices before the others; the reference parser keeps the order of the
  text, which no function of the components depends on.)
\<close>

fun set_prop :: "(string \<times> jsval) list \<Rightarrow> string \<Rightarrow> jsval \<Rightarrow> (string \<times> jsval) list" where
  "set_prop [] k v = [(k, v)]"
| "set_prop ((k', v') # kvs) k v = (if k' = k then (k, v) # kvs else (k', v') # set_prop kvs k v)"

text \<open>
  The recursive-descent parser. The fuel bounds the number of calls; every call consumes
  at least one character, so \<open>JSON_parse\<close> below starts it with more fuel than the text
  has characters. \<open>parse_elements\<close> and \<open>parse_members\<close> read the rest of an array and of an
  object after the first element or member has been found to exist.
\<close>

fun parse_value :: "nat \<Rightarrow> string \<Rightarrow> (jsval \<times> string) option"
  and parse_elements :: "nat \<Rightarrow> jsval list \<Rightarrow> string \<Rightarrow> (jsval \<times> string) option"
  and parse_members :: "nat \<Rightarrow> (string \<times> jsval) list \<Rightarrow> string \<Rightarrow> (jsval \<times> string) option"
where
  "parse_value 0 s = None"
| "parse_value (Suc n) s =
     (case skip_ws s of
        [] \<Rightarrow> None
      | c # cs \<Rightarrow>
          if c = CHR ''{'' then
            (case skip_ws cs of
               [] \<Rightarrow> None
             | d # ds \<Rightarrow> if d = CHR ''}'' then Some (JObj [], ds) else parse_members n [] (d # ds))
          else if c = CHR ''['' then
            (case skip_ws cs of
               [] \<Rightarrow> None
             | d # ds \<Rightarrow> if d = CHR '']'' then Some (JArr [], ds) else parse_elements n [] (d # ds))
          else if c = CHR 0x22 then
            (case parse_chars cs of None \<Rightarrow> None | Some (str, rest) \<Rightarrow> Some (JStr str, rest))
          else if c = CHR ''t'' then literal ''true'' (JBool True) (c # cs)
          else if c = CHR ''f'' then literal ''false'' (JBool False) (c # cs)
          else if c = CHR ''n'' then literal ''null'' JNull (c # cs)
          else parse_number (c # cs))"
| "parse_elements 0 acc s = None"
| "parse_elements (Suc n) acc s =
     (case parse_value n s of
        None \<Rightarrow> None
      | Some (v, rest) \<Rightarrow>
          (case skip_ws rest of
             [] \<Rightarrow> None
           | c # cs \<Rightarrow>
               if c = CHR '','' then parse_elements n (acc @ [v]) cs
               else if c = CHR '']'' then Some (JArr (acc @ [v]), cs)
               else None))"
| "parse_members 0 acc s = None"
| "parse_members (Suc n) acc s =
     (case skip_ws s of
        [] \<Rightarrow> None
      | q # qs \<Rightarrow>
          if q \<noteq> CHR 0x22 then None
          else
            (case parse_chars qs of
               None \<Rightarrow> None
             | Some (k, rest) \<Rightarrow>
                 (case skip_ws rest of
                    [] \<Rightarrow> None
                  | c # cs \<Rightarrow>
                      if c \<noteq> CHR '':'' then None
                      else
                        (case parse_value n cs of
                           None \<Rightarrow> None
                         | Some (v, rest2) \<Rightarrow>
                             (case skip_ws rest2 of
                                [] \<Rightarrow> None
                              | e # es \<Rightarrow>
                                  if e = CHR '','' then parse_members n (set_prop acc k v) es
                                  else if e = CHR ''}'' then Some (JObj (set_prop acc k v), es)
                                  else None)))))"

text \<open>
  The reference \<^verbatim>\<open>JSON.parse(s)\<close>: \<open>None\<close> is the SyntaxError it throws. The whole text
  must be one value, with white space around it only.
\<close>

definition JSON_parse :: "string \<Rightarrow> jsval option" where
  "JSON_parse s =
     (case parse_value (Suc (length s)) s of
        None \<Rightarrow> None
      | Some (v, rest) \<Rightarrow> if skip_ws rest = [] then Some v else None)"

section \<open>The forwarding API: shared data types\<close>

text \<open>
  The interfaces of the API module. A field of an entity that an object may lack is an
  \<open>option\<close>: the optional ones, and the ones the views guard with \<^verbatim>\<open>||\<close> when they
  read a response. The
  two target configurations are the objects that \<^verbatim>\<open>JSON.parse\<close> feeds and
  \<^verbatim>\<open>JSON.stringify\<close> reads, so their fields hold JavaScript values, \<open>JUndefined\<close> for
  a field that is not there.
\<close>

datatype SourceType = Device | Product | Group

record ForwardingSource =
  id_source :: "string option"
  rule_id_source :: "string option"
  source_type :: SourceType
  source_id :: string

record ForwardingTarget =
  id_target :: "string option"
  rule_id_target :: "string option"
  target_type :: string
  config :: string

record HTTPTargetConfig =
  url :: jsval
  method_http :: jsval
  headers :: jsval
  secret :: jsval
  timeout :: jsval

record MQTTTargetConfig =
  broker :: jsval
  port :: jsval
  topic :: jsval
  username :: jsval
  password :: jsval
  client_id :: jsval
  qos :: jsval
  version :: jsval

record ForwardingRule =
  id_rule :: "string option"
  name_rule :: "string option"
  description_rule :: "string option"
  enabled :: "int option"
  script_id_rule :: "string option"
  script_name :: "string option"
  remark_rule :: "string option"
  tenant_id :: "string option"
  created_at :: "string option"
  updated_at :: "string option"
  sources_rule :: "ForwardingSource list option"
  targets_rule :: "ForwardingTarget list option"

record ForwardingScript =
  id_script :: "string option"
  name_script :: "string option"
  script_content :: "string option"
  description_script :: "string option"
  enabled_script :: "int option"
  remark_script :: "string option"

record ScriptTestResult =
  success :: bool
  output_text :: string
  error_text :: string

text \<open>
  What an awaited request gives: the pair \<^verbatim>\<open>{data, error}\<close> of the transport client, or
  a rejected promise.
\<close>

datatype 'a response = Response (data: "'a option") (error: jsval) | Rejected

text \<open>The objects that \<^verbatim>\<open>JSON.stringify\<close> walks, in the property order of the editor models.\<close>

definition http_object :: "HTTPTargetConfig \<Rightarrow> jsval" where
  "http_object c =
     JObj [(''url'', url c), (''method'', method_http c), (''headers'', headers c),
           (''secret'', secret c), (''timeout'', timeout c)]"

definition mqtt_object :: "MQTTTargetConfig \<Rightarrow> jsval" where
  "mqtt_object c =
     JObj [(''broker'', broker c), (''port'', port c), (''topic'', topic c),
           (''username'', username c), (''password'', password c),
           (''client_id'', client_id c), (''qos'', qos c), (''version'', version c)]"

section \<open>The rule editor\<close>

record SelectOption =
  opt_label :: string
  opt_value :: "string option"

record FormModel =
  name :: string
  description :: string
  script_id :: "string option"
  remark :: string
  sources :: "ForwardingSource list"
  targets :: "ForwardingTarget list"

datatype modal_type = Add | Edit

datatype message = MsgSuccess string | MsgWarning string | MsgError string

datatype event = UpdateVisible bool | Success

text \<open>The requests a view sends, as the log of a run keeps them.\<close>

datatype request =
    ReqCreateRule ForwardingRule
  | ReqUpdateRule ForwardingRule
  | ReqRuleDetail string
  | ReqRuleStatus "string option" int
  | ReqAllScripts
  | ReqDeviceList nat nat
  | ReqDeviceConfig nat nat
  | ReqGroupTree
  | ReqScriptDetail string
  | ReqTestScript string string

record GroupRef =
  id_group :: "string option"
  name_group :: "string option"

datatype GroupTreeNode =
  GroupTreeNode (group: "GroupRef option") (children: "GroupTreeNode list option")

datatype GroupTreeData = GroupArray "GroupTreeNode list" | GroupSingle GroupTreeNode

record ListItem =
  id_item :: string
  name_item :: "string option"

record ItemPage =
  list_page :: "ListItem list option"

text \<open>The server, as the rule editor reaches it: one function for each request.\<close>

record rule_server =
  createForwardingRule :: "ForwardingRule \<Rightarrow> ForwardingRule response"
  updateForwardingRule :: "ForwardingRule \<Rightarrow> ForwardingRule response"
  getForwardingRuleDetail :: "string \<Rightarrow> ForwardingRule response"
  getAllForwardingScripts :: "ForwardingScript list response"
  deviceList :: "nat \<Rightarrow> nat \<Rightarrow> ItemPage response"
  deviceConfig :: "nat \<Rightarrow> nat \<Rightarrow> ItemPage response"
  deviceGroupTree :: "GroupTreeData response"

text \<open>
  What a component has sent out: requests, toasts and emitted events, each in order. Every
  component state below extends it with the component's props and reactive variables.
\<close>

record component =
  requests :: "request list"
  messages :: "message list"
  emitted :: "event list"

record rule_modal = component +
  props_type :: modal_type
  props_editData :: "ForwardingRule option"
  formRef :: bool
  loading :: bool
  scriptOptions :: "SelectOption list"
  deviceOptions :: "SelectOption list"
  productOptions :: "SelectOption list"
  groupOptions :: "SelectOption list"
  formModel :: FormModel
  currentTargetIndex :: "nat option"
  targetConfigVisible :: bool
  targetConfigType :: string
  httpConfig :: HTTPTargetConfig
  mqttConfig :: MQTTTargetConfig

definition initial_httpConfig :: HTTPTargetConfig where
  "initial_httpConfig =
     \<lparr>url = JStr '''', method_http = JStr ''POST'', headers = JObj [], secret = JStr '''',
      timeout = JNum 30\<rparr>"

definition initial_mqttConfig :: MQTTTargetConfig where
  "initial_mqttConfig =
     \<lparr>broker = JStr '''', port = JNum 1883, topic = JStr '''', username = JStr '''',
      password = JStr '''', client_id = JStr '''', qos = JNum 1, version = JUndefined\<rparr>"

definition initial_rule_modal :: "modal_type \<Rightarrow> ForwardingRule option \<Rightarrow> rule_modal" where
  "initial_rule_modal ty ed =
     \<lparr>requests = [], messages = [], emitted = [],
      props_type = ty, props_editData = ed, formRef = True, loading = False,
      scriptOptions = [], deviceOptions = [], productOptions = [], groupOptions = [],
      formModel = \<lparr>name = '''', description = '''', script_id = None, remark = '''',
                   sources = [], targets = []\<rparr>,
      currentTargetIndex = None, targetConfigVisible = False, targetConfigType = ''http'',
      httpConfig = initial_httpConfig, mqttConfig = initial_mqttConfig\<rparr>"

subsection \<open>Sources and targets\<close>

definition addSource :: "rule_modal \<Rightarrow> rule_modal" where
  "addSource st =
     st\<lparr>formModel := (formModel st)\<lparr>sources := sources (formModel st) @
        [\<lparr>id_source = None, rule_id_source = None, source_type = Device, source_id = ''''\<rparr>]\<rparr>\<rparr>"

text \<open>\<^verbatim>\<open>xs.splice(index, 1)\<close> for an index that is a natural number.\<close>

definition splice1 :: "nat \<Rightarrow> 'a list \<Rightarrow> 'a list" where
  "splice1 index xs = take index xs @ drop (Suc index) xs"

definition removeSource :: "nat \<Rightarrow> rule_modal \<Rightarrow> rule_modal" where
  "removeSource index st =
     st\<lparr>formModel := (formModel st)\<lparr>sources := splice1 index (sources (formModel st))\<rparr>\<rparr>"

definition addTarget :: "(jsval \<Rightarrow> string) \<Rightarrow> rule_modal \<Rightarrow> rule_modal" where
  "addTarget stringify st =
     st\<lparr>formModel := (formModel st)\<lparr>targets := targets (formModel st) @
        [\<lparr>id_target = None, rule_id_target = None, target_type = ''http'',
          config = stringify (JObj [(''url'', JStr ''''), (''method'', JStr ''POST''),
                                    (''timeout'', JNum 30)])\<rparr>]\<rparr>\<rparr>"

definition removeTarget :: "nat \<Rightarrow> rule_modal \<Rightarrow> rule_modal" where
  "removeTarget index st =
     st\<lparr>formModel := (formModel st)\<lparr>targets := splice1 index (targets (formModel st))\<rparr>\<rparr>"

subsection \<open>The target-config codec\<close>

text \<open>
  The object literals that \<^verbatim>\<open>editTargetConfig\<close> builds from the parsed configuration
  and hands to \<^verbatim>\<open>Object.assign\<close>. The assignment sets the listed properties of the
  editor model and leaves its other properties as they are.
\<close>

definition assign_http :: "jsval \<Rightarrow> HTTPTargetConfig \<Rightarrow> HTTPTargetConfig" where
  "assign_http cfg h =
     h\<lparr>url := js_or (get_prop cfg ''url'') (JStr ''''),
       method_http := js_or (get_prop cfg ''method'') (JStr ''POST''),
       headers := js_or (get_prop cfg ''headers'') (JObj []),
       secret := js_or (get_prop cfg ''secret'') (JStr ''''),
       timeout := js_or (get_prop cfg ''timeout'') (JNum 30)\<rparr>"

definition assign_mqtt :: "jsval \<Rightarrow> MQTTTargetConfig \<Rightarrow> MQTTTargetConfig" where
  "assign_mqtt cfg m =
     m\<lparr>broker := js_or (get_prop cfg ''broker'') (JStr ''''),
       port := js_or (get_prop cfg ''port'') (JNum 1883),
       topic := js_or (get_prop cfg ''topic'') (JStr ''''),
       username := js_or (get_prop cfg ''username'') (JStr ''''),
       password := js_or (get_prop cfg ''password'') (JStr ''''),
       client_id := js_or (get_prop cfg ''client_id'') (JStr ''''),
       qos := js_coalesce (get_prop cfg ''qos'') (JNum 1)\<rparr>"

text \<open>
  \<^verbatim>\<open>editTargetConfig(index)\<close>. Reading \<^verbatim>\<open>target.target_type\<close> of a target that is not
  in the list throws, after the index has been recorded. Inside the \<^verbatim>\<open>try\<close>, a text
  that does not parse and a parsed \<^verbatim>\<open>null\<close> (whose first property read throws) both
  end in the empty \<^verbatim>\<open>catch\<close>.
\<close>

definition editTargetConfig :: "(string \<Rightarrow> jsval option) \<Rightarrow> nat \<Rightarrow> rule_modal \<Rightarrow> rule_modal completion" where
  "editTargetConfig parse index st =
     (if index < length (targets (formModel st)) then
        let target = targets (formModel st) ! index;
            st1 = st\<lparr>currentTargetIndex := Some index, targetConfigType := target_type target\<rparr>;
            st2 = (case parse (config target) of
                     None \<Rightarrow> st1
                   | Some cfg \<Rightarrow>
                       if nullish cfg then st1
                       else if target_type target = ''http''
                         then st1\<lparr>httpConfig := assign_http cfg (httpConfig st1)\<rparr>
                         else st1\<lparr>mqttConfig := assign_mqtt cfg (mqttConfig st1)\<rparr>)
        in Normal (st2\<lparr>targetConfigVisible := True\<rparr>)
      else Throw TypeError (st\<lparr>currentTargetIndex := Some index\<rparr>))"

text \<open>
  \<^verbatim>\<open>saveTargetConfig()\<close>. Writing \<^verbatim>\<open>target.config\<close> of a target that is not in the
  list throws before anything is written.
\<close>

definition saveTargetConfig :: "(jsval \<Rightarrow> string) \<Rightarrow> rule_modal \<Rightarrow> rule_modal completion" where
  "saveTargetConfig stringify st =
     (case currentTargetIndex st of
        None \<Rightarrow> Normal st
      | Some i \<Rightarrow>
          if i < length (targets (formModel st)) then
            let target = targets (formModel st) ! i;
                target1 = (if targetConfigType st = ''http''
                           then target\<lparr>config := stringify (http_object (httpConfig st))\<rparr>
                           else target\<lparr>config := stringify (mqtt_object (mqttConfig st))\<rparr>);
                target2 = target1\<lparr>target_type := targetConfigType st\<rparr>
            in Normal (st\<lparr>formModel := (formModel st)\<lparr>targets := (targets (formModel st))[i := target2]\<rparr>,
                          targetConfigVisible := False,
                          currentTargetIndex := None\<rparr>)
          else Throw TypeError st)"

text \<open>
  \<^verbatim>\<open>getTargetSummary(target)\<close>. The HTTP branch returns the value of the \<^verbatim>\<open>||\<close>, of
  whatever type. The other branch builds a string with a template literal, which converts
  the broker (or the dash) first and then, when the topic is truthy, the topic. Whatever is
  thrown inside the \<^verbatim>\<open>try\<close> ends in the \<^verbatim>\<open>catch\<close>, which returns the dash: a text that
  does not parse, the property read of a parsed \<^verbatim>\<open>null\<close>, and a conversion to string
  that throws.
\<close>

definition getTargetSummary ::
  "(string \<Rightarrow> jsval option) \<Rightarrow> (rat \<Rightarrow> string) \<Rightarrow> ForwardingTarget \<Rightarrow> jsval" where
  "getTargetSummary parse nt target =
     (case parse (config target) of
        None \<Rightarrow> JStr ''-''
      | Some cfg \<Rightarrow>
          if nullish cfg then JStr ''-''
          else if target_type target = ''http'' then js_or (get_prop cfg ''url'') (JStr ''-'')
          else
            (case js_to_string nt (js_or (get_prop cfg ''broker'') (JStr ''-'')) of
               None \<Rightarrow> JStr ''-''
             | Some b \<Rightarrow>
                 if truthy (get_prop cfg ''topic'') then
                   (case js_to_string nt (get_prop cfg ''topic'') of
                      None \<Rightarrow> JStr ''-''
                    | Some tp \<Rightarrow> JStr (b @ '' ('' @ tp @ '')''))
                 else JStr b))"

definition getSourceOptions :: "SourceType \<Rightarrow> rule_modal \<Rightarrow> SelectOption list" where
  "getSourceOptions sourceType st =
     (case sourceType of
        Device \<Rightarrow> deviceOptions st
      | Product \<Rightarrow> productOptions st
      | Group \<Rightarrow> groupOptions st)"

subsection \<open>Loading the option lists\<close>

text \<open>
  \<^verbatim>\<open>group?.id && group?.name\<close>: both are there and neither is the empty string.
\<close>

definition has_id_and_name :: "GroupRef option \<Rightarrow> bool" where
  "has_id_and_name g =
     (case g of
        None \<Rightarrow> False
      | Some r \<Rightarrow>
          (case (id_group r, name_group r) of
             (Some i, Some n) \<Rightarrow> i \<noteq> [] \<and> n \<noteq> []
           | _ \<Rightarrow> False))"

definition group_option :: "GroupRef option \<Rightarrow> SelectOption" where
  "group_option g =
     (case g of
        Some r \<Rightarrow> \<lparr>opt_label = (case name_group r of Some n \<Rightarrow> n | None \<Rightarrow> []),
                   opt_value = id_group r\<rparr>
      | None \<Rightarrow> \<lparr>opt_label = [], opt_value = None\<rparr>)"

definition push_group :: "GroupRef option \<Rightarrow> SelectOption list \<Rightarrow> SelectOption list" where
  "push_group g result = (if has_id_and_name g then result @ [group_option g] else result)"

text \<open>
  \<^verbatim>\<open>flattenGroups(nodes, result)\<close>: the \<^verbatim>\<open>forEach\<close> over the nodes, pushing onto the
  one \<^verbatim>\<open>result\<close> array that every recursive call shares; the array is threaded through.
  The recursive call is made when \<^verbatim>\<open>children?.length\<close> is truthy.
\<close>

fun flattenGroups :: "GroupTreeNode list \<Rightarrow> SelectOption list \<Rightarrow> SelectOption list" where
  "flattenGroups [] result = result"
| "flattenGroups (GroupTreeNode g ch # nodes) result =
     flattenGroups nodes
       (case ch of
          None \<Rightarrow> push_group g result
        | Some cs \<Rightarrow>
            if cs \<noteq> [] then flattenGroups cs (push_group g result) else push_group g result)"

definition script_option :: "ForwardingScript \<Rightarrow> SelectOption" where
  "script_option item =
     \<lparr>opt_label = (case name_script item of Some n \<Rightarrow> n | None \<Rightarrow> []), opt_value = id_script item\<rparr>"

definition item_option :: "ListItem \<Rightarrow> SelectOption" where
  "item_option item =
     \<lparr>opt_label = (case name_item item of
                     Some n \<Rightarrow> if n \<noteq> [] then n else id_item item
                   | None \<Rightarrow> id_item item),
      opt_value = Some (id_item item)\<rparr>"

definition is_rejected :: "'a response \<Rightarrow> bool" where
  "is_rejected r = (case r of Rejected \<Rightarrow> True | Response d e \<Rightarrow> False)"

definition page_items :: "ItemPage response \<Rightarrow> ListItem list option" where
  "page_items r =
     (case r of
        Rejected \<Rightarrow> None
      | Response d e \<Rightarrow> (case d of None \<Rightarrow> None | Some p \<Rightarrow> list_page p))"

text \<open>
  \<^verbatim>\<open>loadOptions()\<close>. \<^verbatim>\<open>Promise.all\<close> starts the four requests, and rejects when one of
  them rejects; the \<^verbatim>\<open>catch\<close> around the whole body is empty.
\<close>

definition loadOptions :: "rule_server \<Rightarrow> rule_modal \<Rightarrow> rule_modal completion" where
  "loadOptions srv st =
     (let scriptsRes = getAllForwardingScripts srv;
          devicesRes = deviceList srv 1 1000;
          productsRes = deviceConfig srv 1 1000;
          groupsRes = deviceGroupTree srv;
          st0 = st\<lparr>requests := requests st @
                  [ReqAllScripts, ReqDeviceList 1 1000, ReqDeviceConfig 1 1000, ReqGroupTree]\<rparr>
      in if is_rejected scriptsRes \<or> is_rejected devicesRes \<or> is_rejected productsRes
            \<or> is_rejected groupsRes
         then Normal st0
         else
           let st1 = (case data scriptsRes of
                        None \<Rightarrow> st0
                      | Some scripts \<Rightarrow> st0\<lparr>scriptOptions := map script_option scripts\<rparr>);
               st2 = (case page_items devicesRes of
                        None \<Rightarrow> st1
                      | Some items \<Rightarrow> st1\<lparr>deviceOptions := map item_option items\<rparr>);
               st3 = (case page_items productsRes of
                        None \<Rightarrow> st2
                      | Some items \<Rightarrow> st2\<lparr>productOptions := map item_option items\<rparr>);
               st4 = (case data groupsRes of
                        None \<Rightarrow> st3
                      | Some (GroupArray nodes) \<Rightarrow> st3\<lparr>groupOptions := flattenGroups nodes []\<rparr>
                      | Some (GroupSingle node) \<Rightarrow> st3\<lparr>groupOptions := flattenGroups [node] []\<rparr>)
           in Normal st4)"

definition resetForm :: "rule_modal \<Rightarrow> rule_modal" where
  "resetForm st =
     st\<lparr>formModel := \<lparr>name = '''', description = '''', script_id = None, remark = '''',
                       sources = [], targets = []\<rparr>\<rparr>"

subsection \<open>Submitting the rule\<close>

text \<open>
  Modelled from the spec: \<^verbatim>\<open>createRequiredFormRule\<close> of the form utilities, which is not
  among the sources. The spec has the rule's \<^verbatim>\<open>name\<close> required and non-empty: the rule
  accepts a value that is not the empty string.
\<close>

definition createRequiredFormRule :: "string \<Rightarrow> bool" where
  "createRequiredFormRule v = (v \<noteq> [])"

text \<open>The component's \<^verbatim>\<open>rules\<close> object: the one rule, on \<^verbatim>\<open>name\<close>.\<close>

definition "rules" :: "FormModel \<Rightarrow> bool" where
  "rules fm = createRequiredFormRule (name fm)"

text \<open>
  Modelled from the spec: \<^verbatim>\<open>validate()\<close> of the form layer, which is not among the
  sources. The spec has a client-side required-field validation before any network call,
  and a missing required field blocks the submission: the promise resolves when the rules
  accept the form model and rejects otherwise.
\<close>

definition validate :: "FormModel \<Rightarrow> bool" where
  "validate fm = rules fm"

definition closeModal :: "'a component_scheme \<Rightarrow> 'a component_scheme" where
  "closeModal st = st\<lparr>emitted := emitted st @ [UpdateVisible False]\<rparr>"

definition truthy_id :: "string option \<Rightarrow> bool" where
  "truthy_id i = (case i of None \<Rightarrow> False | Some s \<Rightarrow> s \<noteq> [])"

definition submitData :: "FormModel \<Rightarrow> ForwardingRule" where
  "submitData fm =
     \<lparr>id_rule = None, name_rule = Some (name fm), description_rule = Some (description fm),
      enabled = None,
      script_id_rule = (if truthy_id (script_id fm) then script_id fm else None),
      script_name = None, remark_rule = Some (remark fm), tenant_id = None,
      created_at = None, updated_at = None,
      sources_rule = Some (sources fm), targets_rule = Some (targets fm)\<rparr>"

definition edit_id :: "ForwardingRule option \<Rightarrow> string option" where
  "edit_id ed = (case ed of None \<Rightarrow> None | Some r \<Rightarrow> id_rule r)"

text \<open>
  What follows an awaited create or update: the toast, the \<^verbatim>\<open>success\<close> event and the
  closing of the modal when the error channel is empty; the \<^verbatim>\<open>finally\<close> clears
  \<^verbatim>\<open>loading\<close> on every path.
\<close>

definition after_submit :: "string \<Rightarrow> ForwardingRule response \<Rightarrow> rule_modal \<Rightarrow> rule_modal completion" where
  "after_submit toast r st =
     (case r of
        Rejected \<Rightarrow> Throw Rejection (st\<lparr>loading := False\<rparr>)
      | Response d e \<Rightarrow>
          if \<not> truthy e
          then Normal ((closeModal (st\<lparr>messages := messages st @ [MsgSuccess toast],
                                        emitted := emitted st @ [Success]\<rparr>))\<lparr>loading := False\<rparr>)
          else Normal (st\<lparr>loading := False\<rparr>))"

text \<open>
  \<^verbatim>\<open>handleSubmit()\<close>. The awaited \<^verbatim>\<open>formRef.value?.validate()\<close> runs when the form
  instance is there, and its rejection leaves the function before anything else.
\<close>

definition handleSubmit :: "rule_server \<Rightarrow> rule_modal \<Rightarrow> rule_modal completion" where
  "handleSubmit srv st =
     (if formRef st \<and> \<not> validate (formModel st) then Throw ValidationError st
      else
        let st1 = st\<lparr>loading := True\<rparr>;
            d = submitData (formModel st1)
        in if props_type st1 = Edit \<and> truthy_id (edit_id (props_editData st1)) then
             let d1 = d\<lparr>id_rule := edit_id (props_editData st1)\<rparr>
             in after_submit ''common.updateSuccess'' (updateForwardingRule srv d1)
                  (st1\<lparr>requests := requests st1 @ [ReqUpdateRule d1]\<rparr>)
           else
             after_submit ''common.addSuccess'' (createForwardingRule srv d)
               (st1\<lparr>requests := requests st1 @ [ReqCreateRule d]\<rparr>))"

section \<open>The rule list\<close>

text \<open>
  \<^verbatim>\<open>handleToggleStatus(row)\<close>. The row is an object of the table; the function returns it
  as it leaves it, with the page's state.
\<close>

definition handleToggleStatus ::
  "(string option \<Rightarrow> int \<Rightarrow> unit response) \<Rightarrow> ForwardingRule \<Rightarrow> component
     \<Rightarrow> (ForwardingRule \<times> component) completion" where
  "handleToggleStatus updateForwardingRuleStatus row st =
     (let newStatus = (if enabled row = Some 1 then 0 else 1);
          st1 = st\<lparr>requests := requests st @ [ReqRuleStatus (id_rule row) newStatus]\<rparr>
      in case updateForwardingRuleStatus (id_rule row) newStatus of
           Rejected \<Rightarrow> Throw Rejection (row, st1)
         | Response d e \<Rightarrow>
             if \<not> truthy e
             then Normal (row\<lparr>enabled := Some newStatus\<rparr>,
                          st1\<lparr>messages := messages st1 @ [MsgSuccess ''common.updateSuccess'']\<rparr>)
             else Normal (row, st1))"

section \<open>The script tester\<close>

record TestFormModel =
  script_content_t :: string
  test_data :: string

record script_test_modal = component +
  loading_t :: bool
  testResult :: "ScriptTestResult option"
  formModel_t :: TestFormModel

definition handleTest ::
  "(string \<Rightarrow> string \<Rightarrow> ScriptTestResult response) \<Rightarrow> script_test_modal
     \<Rightarrow> script_test_modal completion" where
  "handleTest testForwardingScript st =
     (if script_content_t (formModel_t st) = [] then
        Normal (st\<lparr>messages := messages st @ [MsgWarning ''dataForwarding.scriptRequired'']\<rparr>)
      else
        let st1 = st\<lparr>loading_t := True, testResult := None,
                     requests := requests st @
                       [ReqTestScript (script_content_t (formModel_t st)) (test_data (formModel_t st))]\<rparr>
        in case testForwardingScript (script_content_t (formModel_t st)) (test_data (formModel_t st)) of
             Rejected \<Rightarrow> Throw Rejection (st1\<lparr>loading_t := False\<rparr>)
           | Response d e \<Rightarrow>
               (case d of
                  Some res \<Rightarrow>
                    if \<not> truthy e then
                      Normal (st1\<lparr>testResult := Some res,
                                  messages := messages st1 @
                                    [if success res then MsgSuccess ''dataForwarding.testSuccess''
                                     else MsgError ''dataForwarding.testFailed''],
                                  loading_t := False\<rparr>)
                    else Normal (st1\<lparr>loading_t := False\<rparr>)
                | None \<Rightarrow> Normal (st1\<lparr>loading_t := False\<rparr>)))"

section \<open>The script editor\<close>

definition bytes :: "nat list \<Rightarrow> string" where
  "bytes ns = map char_of ns"

definition lines :: "string list \<Rightarrow> string" where
  "lines ls = join [CHR 0x0A] ls"

text \<open>
  \<^verbatim>\<open>defaultScriptContent()\<close>: the Lua template, line by line. Its comments are
  Chinese; they are written here as the bytes of their UTF-8 encoding.
\<close>

definition defaultScriptContent :: string where
  "defaultScriptContent =
     lines [
        ''-- '' @ bytes [0xE6, 0x95, 0xB0, 0xE6, 0x8D, 0xAE, 0xE8, 0xBD, 0xAC, 0xE5, 0x8F,
          0x91] @ '' Lua '' @ bytes [0xE8, 0x84, 0x9A, 0xE6, 0x9C, 0xAC, 0xE7, 0xA4, 0xBA,
          0xE4, 0xBE, 0x8B],
        ''-- payload: '' @ bytes [0xE5, 0x8E, 0x9F, 0xE5, 0xA7, 0x8B, 0xE6, 0xB6, 0x88,
          0xE6, 0x81, 0xAF, 0xEF, 0xBC, 0x88] @ ''JSON '' @ bytes [0xE5, 0xAD, 0x97, 0xE7,
          0xAC, 0xA6, 0xE4, 0xB8, 0xB2, 0xEF, 0xBC, 0x89],
        ''-- '' @ bytes [0xE8, 0xBF, 0x94, 0xE5, 0x9B, 0x9E, 0xE5, 0x80, 0xBC] @ '': '' @
          bytes [0xE5, 0xA4, 0x84, 0xE7, 0x90, 0x86, 0xE5, 0x90, 0x8E, 0xE7, 0x9A, 0x84, 0xE6,
          0xB6, 0x88, 0xE6, 0x81, 0xAF, 0xEF, 0xBC, 0x88] @ ''JSON '' @ bytes [0xE5, 0xAD,
          0x97, 0xE7, 0xAC, 0xA6, 0xE4, 0xB8, 0xB2, 0xEF, 0xBC, 0x89],
        '''',
        ''local data = json.decode(payload)'',
        '''',
        ''-- '' @ bytes [0xE5, 0x9C, 0xA8, 0xE6, 0xAD, 0xA4, 0xE5, 0xA4, 0x84, 0xE6, 0xB7,
          0xBB, 0xE5, 0x8A, 0xA0, 0xE6, 0x95, 0xB0, 0xE6, 0x8D, 0xAE, 0xE5, 0xA4, 0x84, 0xE7,
          0x90, 0x86, 0xE9, 0x80, 0xBB, 0xE8, 0xBE, 0x91],
        ''-- '' @ bytes [0xE4, 0xBE, 0x8B, 0xE5, 0xA6, 0x82] @ '': '' @ bytes [0xE6, 0xB7,
          0xBB, 0xE5, 0x8A, 0xA0, 0xE5, 0xA4, 0x84, 0xE7, 0x90, 0x86, 0xE6, 0x97, 0xB6, 0xE9,
          0x97, 0xB4, 0xE6, 0x88, 0xB3],
        ''data.processed_at = os.time() * 1000'',
        '''',
        ''return json.encode(data)'']"

record ScriptFormModel =
  name_s :: string
  description_s :: string
  script_content_s :: string
  remark_s :: string

record script_modal = component +
  props_type_s :: modal_type
  props_editData_s :: "ForwardingScript option"
  loading_s :: bool
  formModel_s :: ScriptFormModel

text \<open>\<^verbatim>\<open>x || d\<close> for a string that may be missing.\<close>

definition or_string :: "string option \<Rightarrow> string \<Rightarrow> string" where
  "or_string x d = (case x of None \<Rightarrow> d | Some s \<Rightarrow> if s \<noteq> [] then s else d)"

definition script_edit_id :: "ForwardingScript option \<Rightarrow> string option" where
  "script_edit_id ed = (case ed of None \<Rightarrow> None | Some s \<Rightarrow> id_script s)"

text \<open>\<^verbatim>\<open>loadEditData()\<close> of the script editor.\<close>

definition loadEditData ::
  "(string \<Rightarrow> ForwardingScript response) \<Rightarrow> script_modal \<Rightarrow> script_modal completion" where
  "loadEditData getForwardingScriptDetail st =
     (case script_edit_id (props_editData_s st) of
        None \<Rightarrow> Normal st
      | Some i \<Rightarrow>
          if i = [] then Normal st
          else
            let st1 = st\<lparr>loading_s := True, requests := requests st @ [ReqScriptDetail i]\<rparr>
            in case getForwardingScriptDetail i of
                 Rejected \<Rightarrow> Throw Rejection (st1\<lparr>loading_s := False\<rparr>)
               | Response d e \<Rightarrow>
                   (case d of
                      None \<Rightarrow> Normal (st1\<lparr>loading_s := False\<rparr>)
                    | Some dat \<Rightarrow>
                        Normal (st1\<lparr>formModel_s :=
                                     \<lparr>name_s = or_string (name_script dat) '''',
                                      description_s = or_string (description_script dat) '''',
                                      script_content_s =
                                        or_string (script_content dat) defaultScriptContent,
                                      remark_s = or_string (remark_script dat) ''''\<rparr>,
                                   loading_s := False\<rparr>)))"

definition resetForm_s :: "script_modal \<Rightarrow> script_modal" where
  "resetForm_s st =
     st\<lparr>formModel_s := \<lparr>name_s = '''', description_s = '''',
                         script_content_s = defaultScriptContent, remark_s = ''''\<rparr>\<rparr>"

section \<open>Notions the properties are stated with\<close>

fun returned :: "'s completion \<Rightarrow> bool" where
  "returned (Normal s) = True"
| "returned (Throw e s) = False"

fun state_of :: "'s completion \<Rightarrow> 's" where
  "state_of (Normal s) = s"
| "state_of (Throw e s) = s"

text \<open>
  The option list that a depth-first walk of a group tree gives, in the spec's words: a
  node's own option first, when the node has an id and a name, then the options of its
  children's subtrees, child by child.
\<close>

fun children_of :: "GroupTreeNode \<Rightarrow> GroupTreeNode list" where
  "children_of (GroupTreeNode g ch) = (case ch of None \<Rightarrow> [] | Some cs \<Rightarrow> cs)"

fun own_option :: "GroupTreeNode \<Rightarrow> SelectOption list" where
  "own_option (GroupTreeNode g ch) = (if has_id_and_name g then [group_option g] else [])"

fun preorder_options :: "GroupTreeNode \<Rightarrow> SelectOption list" where
  "preorder_options (GroupTreeNode g None) = own_option (GroupTreeNode g None)"
| "preorder_options (GroupTreeNode g (Some cs)) =
     own_option (GroupTreeNode g (Some cs)) @ concat (map preorder_options cs)"








text \<open>A target entry, and an editor that holds a list of targets and is otherwise fresh.\<close>

definition target :: "string \<Rightarrow> string \<Rightarrow> ForwardingTarget" where
  "target ty cfg = \<lparr>id_target = None, rule_id_target = None, target_type = ty, config = cfg\<rparr>"

definition editor_with :: "ForwardingTarget list \<Rightarrow> rule_modal" where
  "editor_with ts =
     (initial_rule_modal Add None)\<lparr>formModel :=
        (formModel (initial_rule_modal Add None))\<lparr>targets := ts\<rparr>\<rparr>"

text \<open>Sample data for the concrete instances below.\<close>

definition sample_tree :: GroupTreeNode where
  "sample_tree =
     GroupTreeNode (Some \<lparr>id_group = Some ''1'', name_group = Some ''root''\<rparr>)
       (Some [GroupTreeNode (Some \<lparr>id_group = None, name_group = Some ''anon''\<rparr>)
                (Some [GroupTreeNode (Some \<lparr>id_group = Some ''3'', name_group = Some ''leaf''\<rparr>)
                         None]),
              GroupTreeNode (Some \<lparr>id_group = Some ''4'', name_group = Some ''side''\<rparr>)
                (Some [])])"

definition two_targets :: "ForwardingTarget list" where
  \<open>two_targets =
     [target ''http'' ''{"url":"https://a.example/hook","method":"PUT","timeout":5}'',
      target ''http'' ''not json'']\<close>

text \<open>A request that came back with an empty error channel.\<close>

fun without_error :: "'a response \<Rightarrow> bool" where
  "without_error (Response d e) = (\<not> truthy e)"
| "without_error Rejected = False"

text \<open>A server whose group-tree request rejects while the other three succeed.\<close>

definition groups_down :: rule_server where
  "groups_down =
     \<lparr>createForwardingRule = (\<lambda>r. Response (Some r) JUndefined),
      updateForwardingRule = (\<lambda>r. Response (Some r) JUndefined),
      getForwardingRuleDetail = (\<lambda>i. Response None (JObj [(''code'', JNum 404)])),
      getAllForwardingScripts =
        Response (Some [\<lparr>id_script = Some ''s1'', name_script = Some ''scale'',
                          script_content = Some ''return payload'', description_script = None,
                          enabled_script = None, remark_script = None\<rparr>]) JUndefined,
      deviceList = (\<lambda>p n. Response (Some \<lparr>list_page = Some [\<lparr>id_item = ''d1'', name_item = None\<rparr>]\<rparr>)
                              JUndefined),
      deviceConfig = (\<lambda>p n. Response (Some \<lparr>list_page = Some []\<rparr>) JUndefined),
      deviceGroupTree = Rejected\<rparr>"

definition sample_rule :: ForwardingRule where
  "sample_rule =
     \<lparr>id_rule = Some ''r1'', name_rule = Some ''to cloud'', description_rule = None,
      enabled = Some 1, script_id_rule = None, script_name = None, remark_rule = None,
      tenant_id = None, created_at = None, updated_at = None, sources_rule = None,
      targets_rule = None\<rparr>"

definition idle :: component where
  "idle = \<lparr>requests = [], messages = [], emitted = []\<rparr>"

definition sample_tester :: "string \<Rightarrow> script_test_modal" where
  "sample_tester script =
     \<lparr>requests = [], messages = [], emitted = [], loading_t = False, testResult = None,
      formModel_t = \<lparr>script_content_t = script, test_data = ''{}''\<rparr>\<rparr>"

definition sample_script :: ForwardingScript where
  "sample_script =
     \<lparr>id_script = Some ''s1'', name_script = Some ''scale'', script_content = Some '''',
      description_script = None, enabled_script = None, remark_script = None\<rparr>"

definition sample_script_modal :: script_modal where
  "sample_script_modal =
     \<lparr>requests = [], messages = [], emitted = [], props_type_s = Edit,
      props_editData_s = Some sample_script, loading_s = False,
      formModel_s = \<lparr>name_s = '''', description_s = '''', script_content_s = '''',
                     remark_s = ''''\<rparr>\<rparr>"













section \<open>Properties of the flattening of the group tree\<close>

text \<open>
  Claim C3. For a group tree of any depth, \<^verbatim>\<open>flattenGroups\<close> appends to the result the
  options of a depth-first walk: for each node in turn its own option, when the node has
  both a group id and a group name, and then the options of its descendants, so that a
  parent's option comes before those of all its descendants; a node that lacks the id or
  the name adds no option of its own, and its children are walked all the same.
\<close>

theorem flattenGroups_preorder:
  "flattenGroups nodes result = result @ concat (map preorder_options nodes) \<and>
   preorder_options node = own_option node @ concat (map preorder_options (children_of node)) \<and>
   own_option node =
     (if has_id_and_name (group node)
      then [\<lparr>opt_label = the (name_group (the (group node))),
              opt_value = id_group (the (group node))\<rparr>]
      else [])"
proof (intro conjI)
  show "flattenGroups nodes result = result @ concat (map preorder_options nodes)"
  proof (induction nodes result rule: flattenGroups.induct)
    case (1 result)
    show ?case by simp
  next
    case (2 g ch nodes result)
    show ?case
    proof (cases ch)
      case None
      with "2.IH"(2) show ?thesis by (simp add: push_group_def)
    next
      case (Some cs)
      show ?thesis
      proof (cases "cs = []")
        case True
        with Some "2.IH"(2) show ?thesis by (simp add: push_group_def)
      next
        case False
        with Some "2.IH"(1)[of cs] "2.IH"(2) show ?thesis by (simp add: push_group_def)
      qed
    qed
  qed
next
  show "preorder_options node = own_option node @ concat (map preorder_options (children_of node))"
  proof (cases node)
    case (GroupTreeNode g ch)
    then show ?thesis by (cases ch) simp_all
  qed
next
  show "own_option node =
     (if has_id_and_name (group node)
      then [\<lparr>opt_label = the (name_group (the (group node))),
              opt_value = id_group (the (group node))\<rparr>]
      else [])"
  proof (cases node)
    case (GroupTreeNode g ch)
    then show ?thesis
      by (auto simp: has_id_and_name_def group_option_def split: option.splits)
  qed
qed

theorem flattenGroups_preorder_witness:
  "flattenGroups [sample_tree] [] =
     [\<lparr>opt_label = ''root'', opt_value = Some ''1''\<rparr>,
      \<lparr>opt_label = ''leaf'', opt_value = Some ''3''\<rparr>,
      \<lparr>opt_label = ''side'', opt_value = Some ''4''\<rparr>]"
  using flattenGroups_preorder [of "[sample_tree]" "[]" sample_tree]
  by (simp add: sample_tree_def has_id_and_name_def group_option_def)

section \<open>Properties of the target-config codec\<close>

text \<open>
  Claim C6. \<^verbatim>\<open>saveTargetConfig\<close> with no recorded index is a no-op: it returns in the state
  it was called in. With a recorded index \<open>i\<close> of an entry of the target list it returns, and
  the entry at \<open>i\<close> has its \<^verbatim>\<open>config\<close> (the active editor model, re-encoded) and its
  \<^verbatim>\<open>target_type\<close> written and nothing else; every other entry of the list and every other
  field of the rule form model are as before. Of the rest of the state only the
  sub-dialog's visibility and the recorded index change. (With a recorded index that is
  not in the list the write throws and the state is as before.)
\<close>

theorem saveTargetConfig_frame:
  "(currentTargetIndex st = None \<longrightarrow> saveTargetConfig stringify st = Normal st) \<and>
   (currentTargetIndex st = Some i \<and> i < length (targets (formModel st)) \<longrightarrow>
      returned (saveTargetConfig stringify st) \<and>
      targets (formModel (state_of (saveTargetConfig stringify st))) =
        (targets (formModel st))
          [i := (targets (formModel st) ! i)
                  \<lparr>config := (if targetConfigType st = ''http''
                              then stringify (http_object (httpConfig st))
                              else stringify (mqtt_object (mqttConfig st))),
                   target_type := targetConfigType st\<rparr>] \<and>
      (\<forall>j < length (targets (formModel st)). j \<noteq> i \<longrightarrow>
         targets (formModel (state_of (saveTargetConfig stringify st))) ! j
           = targets (formModel st) ! j) \<and>
      length (targets (formModel (state_of (saveTargetConfig stringify st))))
        = length (targets (formModel st)) \<and>
      formModel (state_of (saveTargetConfig stringify st))
        = (formModel st)\<lparr>targets := targets (formModel (state_of (saveTargetConfig stringify st)))\<rparr> \<and>
      state_of (saveTargetConfig stringify st)
        = st\<lparr>formModel := formModel (state_of (saveTargetConfig stringify st)),
              targetConfigVisible := False, currentTargetIndex := None\<rparr>) \<and>
   (currentTargetIndex st = Some i \<and> \<not> i < length (targets (formModel st)) \<longrightarrow>
      saveTargetConfig stringify st = Throw TypeError st)"
  by (simp add: saveTargetConfig_def Let_def)

theorem saveTargetConfig_frame_witness:
  \<open>saveTargetConfig JSON_stringify (editor_with two_targets) = Normal (editor_with two_targets) \<and>
   targets (formModel (state_of (saveTargetConfig JSON_stringify
      ((editor_with two_targets)\<lparr>currentTargetIndex := Some 1\<rparr>)))) =
     [target ''http'' ''{"url":"https://a.example/hook","method":"PUT","timeout":5}'',
      target ''http'' ''{"url":"","method":"POST","headers":{},"secret":"","timeout":30}'']\<close>
proof -
  have a: "currentTargetIndex (editor_with two_targets) = None"
    by (simp add: editor_with_def initial_rule_modal_def)
  have b: "currentTargetIndex ((editor_with two_targets)\<lparr>currentTargetIndex := Some 1\<rparr>) = Some 1 \<and>
     1 < length (targets (formModel ((editor_with two_targets)\<lparr>currentTargetIndex := Some 1\<rparr>)))"
    by (simp add: editor_with_def initial_rule_modal_def two_targets_def)
  have c: \<open>JSON_stringify (http_object initial_httpConfig) =
      ''{"url":"","method":"POST","headers":{},"secret":"","timeout":30}''\<close>
    by code_simp
  show ?thesis
    using saveTargetConfig_frame [of "editor_with two_targets" JSON_stringify 1] a
      saveTargetConfig_frame [of "(editor_with two_targets)\<lparr>currentTargetIndex := Some 1\<rparr>"
        JSON_stringify 1] b c
    by (simp add: editor_with_def initial_rule_modal_def two_targets_def target_def)
qed

text \<open>
  Claim C8, as stated, fails: with a configuration that parses, the HTTP summary is not
  always the configuration's \<^verbatim>\<open>url\<close>, and the MQTT summary is not always
  "broker (topic)". The target that \<^verbatim>\<open>addTarget\<close> creates has the empty \<^verbatim>\<open>url\<close> and is
  summarised by the dash, not by its \<^verbatim>\<open>url\<close>; an MQTT configuration with the empty topic
  is summarised by its broker alone, not by "broker ()".
\<close>

theorem getTargetSummary_counterexample:
  \<open>JSON_parse ''{"url":"","method":"POST","timeout":30}'' =
     Some (JObj [(''url'', JStr ''''), (''method'', JStr ''POST''), (''timeout'', JNum 30)]) \<and>
   getTargetSummary JSON_parse number_text
       (target ''http'' ''{"url":"","method":"POST","timeout":30}'') = JStr ''-'' \<and>
   getTargetSummary JSON_parse number_text
       (target ''http'' ''{"url":"","method":"POST","timeout":30}'')
     \<noteq> get_prop (JObj [(''url'', JStr ''''), (''method'', JStr ''POST''), (''timeout'', JNum 30)])
          ''url'' \<and>
   JSON_parse ''{"broker":"mq.example","topic":""}'' =
     Some (JObj [(''broker'', JStr ''mq.example''), (''topic'', JStr '''')]) \<and>
   getTargetSummary JSON_parse number_text (target ''mqtt'' ''{"broker":"mq.example","topic":""}'')
     = JStr ''mq.example'' \<and>
   getTargetSummary JSON_parse number_text (target ''mqtt'' ''{"broker":"mq.example","topic":""}'')
     \<noteq> JStr (''mq.example'' @ '' ('' @ '''' @ '')'')\<close>
proof -
  have a: \<open>JSON_parse ''{"url":"","method":"POST","timeout":30}'' =
     Some (JObj [(''url'', JStr ''''), (''method'', JStr ''POST''), (''timeout'', JNum 30)])\<close>
    by code_simp
  have b: \<open>JSON_parse ''{"broker":"mq.example","topic":""}'' =
     Some (JObj [(''broker'', JStr ''mq.example''), (''topic'', JStr '''')])\<close>
    by code_simp
  show ?thesis using a b
    by (simp add: getTargetSummary_def target_def nullish_def js_or_def)
qed

text \<open>
  Claim C8, amended. When the text does not parse, or parses to \<^verbatim>\<open>null\<close>, the summary is
  the dash. Otherwise, for an HTTP target it is the configuration's \<^verbatim>\<open>url\<close> when that is
  truthy (a non-empty string) and the dash when it is not. For any other target type it is
  the broker, or the dash when the broker is not truthy, followed by the topic in
  parentheses only when the topic is truthy: for a broker \<open>b\<close> and a topic \<open>tp\<close> that are
  strings, \<open>b\<close> (the dash for the empty one) and then \<open>(tp)\<close> unless \<open>tp\<close> is empty; in
  general the strings that the platform converts the two values to; and the dash when one
  of the two conversions throws, as it does for an object with a \<^verbatim>\<open>toString\<close> property
  of its own. This holds for every \<^verbatim>\<open>JSON.parse\<close> and every conversion of numbers.
\<close>

theorem getTargetSummary_cases:
  "(parse (config t) = None \<longrightarrow> getTargetSummary parse nt t = JStr ''-'') \<and>
   (parse (config t) = Some cfg \<and> nullish cfg \<longrightarrow> getTargetSummary parse nt t = JStr ''-'') \<and>
   (parse (config t) = Some cfg \<and> \<not> nullish cfg \<and> target_type t = ''http'' \<longrightarrow>
      getTargetSummary parse nt t =
        (if truthy (get_prop cfg ''url'') then get_prop cfg ''url'' else JStr ''-'')) \<and>
   (parse (config t) = Some cfg \<and> \<not> nullish cfg \<and> target_type t \<noteq> ''http'' \<and>
    get_prop cfg ''broker'' = JStr b \<and> get_prop cfg ''topic'' = JStr tp \<longrightarrow>
      getTargetSummary parse nt t =
        JStr ((if b = [] then ''-'' else b) @ (if tp = [] then [] else '' ('' @ tp @ '')''))) \<and>
   (parse (config t) = Some cfg \<and> \<not> nullish cfg \<and> target_type t \<noteq> ''http'' \<and>
    js_to_string nt (if truthy (get_prop cfg ''broker'') then get_prop cfg ''broker'' else JStr ''-'')
      = Some b' \<and>
    \<not> truthy (get_prop cfg ''topic'') \<longrightarrow>
      getTargetSummary parse nt t = JStr b') \<and>
   (parse (config t) = Some cfg \<and> \<not> nullish cfg \<and> target_type t \<noteq> ''http'' \<and>
    js_to_string nt (if truthy (get_prop cfg ''broker'') then get_prop cfg ''broker'' else JStr ''-'')
      = Some b' \<and>
    truthy (get_prop cfg ''topic'') \<and> js_to_string nt (get_prop cfg ''topic'') = Some tp' \<longrightarrow>
      getTargetSummary parse nt t = JStr (b' @ '' ('' @ tp' @ '')'')) \<and>
   (parse (config t) = Some cfg \<and> \<not> nullish cfg \<and> target_type t \<noteq> ''http'' \<and>
    (js_to_string nt (if truthy (get_prop cfg ''broker'') then get_prop cfg ''broker'' else JStr ''-'')
       = None \<or>
     truthy (get_prop cfg ''topic'') \<and> js_to_string nt (get_prop cfg ''topic'') = None) \<longrightarrow>
      getTargetSummary parse nt t = JStr ''-'')"
  by (auto simp: getTargetSummary_def js_or_def split: option.splits)

theorem getTargetSummary_cases_witness:
  \<open>getTargetSummary JSON_parse number_text
       (target ''http'' ''{"url":"https://a.example/hook","timeout":5}'')
     = JStr ''https://a.example/hook'' \<and>
   getTargetSummary JSON_parse number_text
       (target ''mqtt'' ''{"broker":"mq.example","topic":"iot/data"}'')
     = JStr ''mq.example (iot/data)'' \<and>
   getTargetSummary JSON_parse number_text (target ''http'' ''not json'') = JStr ''-'' \<and>
   getTargetSummary JSON_parse number_text (target ''mqtt'' ''{"broker":{"toString":1}}'')
     = JStr ''-''\<close>
proof -
  have a: \<open>JSON_parse ''{"url":"https://a.example/hook","timeout":5}'' =
             Some (JObj [(''url'', JStr ''https://a.example/hook''), (''timeout'', JNum 5)])\<close>
    by code_simp
  have b: \<open>JSON_parse ''{"broker":"mq.example","topic":"iot/data"}'' =
             Some (JObj [(''broker'', JStr ''mq.example''), (''topic'', JStr ''iot/data'')])\<close>
    by code_simp
  have c: \<open>JSON_parse ''not json'' = None\<close>
    by code_simp
  have d: \<open>JSON_parse ''{"broker":{"toString":1}}'' =
             Some (JObj [(''broker'', JObj [(''toString'', JNum 1)])])\<close>
    by code_simp
  show ?thesis
    using a b c d
      getTargetSummary_cases [of JSON_parse
         \<open>target ''http'' ''{"url":"https://a.example/hook","timeout":5}''\<close> number_text
         \<open>JObj [(''url'', JStr ''https://a.example/hook''), (''timeout'', JNum 5)]\<close>]
      getTargetSummary_cases [of JSON_parse
         \<open>target ''mqtt'' ''{"broker":"mq.example","topic":"iot/data"}''\<close> number_text
         \<open>JObj [(''broker'', JStr ''mq.example''), (''topic'', JStr ''iot/data'')]\<close>
         "''mq.example''" "''iot/data''"]
      getTargetSummary_cases [of JSON_parse \<open>target ''http'' ''not json''\<close> number_text JNull]
      getTargetSummary_cases [of JSON_parse \<open>target ''mqtt'' ''{"broker":{"toString":1}}''\<close>
         number_text \<open>JObj [(''broker'', JObj [(''toString'', JNum 1)])]\<close>]
    by (simp add: target_def nullish_def)
qed

text \<open>
  Claim C2, as stated, fails in its last part: after a target with a valid configuration
  has been opened in the editor, opening a target whose configuration does not parse
  leaves the editor model with the values of the first target, not with the defaults.
\<close>

theorem editTargetConfig_parse_failure_counterexample:
  \<open>JSON_parse (config (two_targets ! 1)) = None \<and>
   returned (editTargetConfig JSON_parse 0 (editor_with two_targets)) \<and>
   returned (editTargetConfig JSON_parse 1
               (state_of (editTargetConfig JSON_parse 0 (editor_with two_targets)))) \<and>
   httpConfig (state_of (editTargetConfig JSON_parse 1
                 (state_of (editTargetConfig JSON_parse 0 (editor_with two_targets)))))
     = \<lparr>url = JStr ''https://a.example/hook'', method_http = JStr ''PUT'', headers = JObj [],
        secret = JStr '''', timeout = JNum 5\<rparr> \<and>
   httpConfig (state_of (editTargetConfig JSON_parse 1
                 (state_of (editTargetConfig JSON_parse 0 (editor_with two_targets)))))
     \<noteq> initial_httpConfig\<close>
proof -
  have a: \<open>JSON_parse ''not json'' = None\<close>
    by code_simp
  have b: \<open>JSON_parse ''{"url":"https://a.example/hook","method":"PUT","timeout":5}'' =
     Some (JObj [(''url'', JStr ''https://a.example/hook''), (''method'', JStr ''PUT''),
                 (''timeout'', JNum 5)])\<close>
    by code_simp
  show ?thesis
    using a b
    by (simp add: editTargetConfig_def editor_with_def initial_rule_modal_def two_targets_def
        target_def Let_def nullish_def assign_http_def js_or_def initial_httpConfig_def)
qed

text \<open>
  Claim C2, amended. For a target whose configuration text does not parse, the summary is
  the dash, and \<^verbatim>\<open>editTargetConfig\<close> on its index returns without raising: it records the
  index and the target's type, opens the sub-dialog and assigns nothing to either editor
  model, which are left exactly as they were before the call (the defaults only when they
  held the defaults before).
\<close>

theorem editTargetConfig_parse_failure:
  "(parse (config t) = None \<longrightarrow> getTargetSummary parse nt t = JStr ''-'') \<and>
   (index < length (targets (formModel st)) \<and>
    parse (config (targets (formModel st) ! index)) = None \<longrightarrow>
      editTargetConfig parse index st =
        Normal (st\<lparr>currentTargetIndex := Some index,
                    targetConfigType := target_type (targets (formModel st) ! index),
                    targetConfigVisible := True\<rparr>) \<and>
      httpConfig (state_of (editTargetConfig parse index st)) = httpConfig st \<and>
      mqttConfig (state_of (editTargetConfig parse index st)) = mqttConfig st)"
  by (simp add: getTargetSummary_def editTargetConfig_def Let_def)

theorem editTargetConfig_parse_failure_witness:
  \<open>getTargetSummary JSON_parse number_text (target ''http'' ''not json'') = JStr ''-'' \<and>
   returned (editTargetConfig JSON_parse 1 (editor_with two_targets)) \<and>
   httpConfig (state_of (editTargetConfig JSON_parse 1 (editor_with two_targets)))
     = initial_httpConfig \<and>
   mqttConfig (state_of (editTargetConfig JSON_parse 1 (editor_with two_targets)))
     = initial_mqttConfig\<close>
proof -
  have a: \<open>JSON_parse ''not json'' = None\<close>
    by code_simp
  have b: "1 < length (targets (formModel (editor_with two_targets))) \<and>
           config (targets (formModel (editor_with two_targets)) ! 1) = ''not json''"
    by (simp add: editor_with_def two_targets_def target_def)
  have c: "httpConfig (editor_with two_targets) = initial_httpConfig \<and>
           mqttConfig (editor_with two_targets) = initial_mqttConfig"
    by (simp add: editor_with_def initial_rule_modal_def)
  show ?thesis
    using a b c
      editTargetConfig_parse_failure [of JSON_parse \<open>target ''http'' ''not json''\<close>
        number_text 1 "editor_with two_targets"]
    by (simp add: target_def)
qed

section \<open>Properties of the handlers that call the server\<close>

text \<open>
  Claim C4. For a rule row whose \<^verbatim>\<open>enabled\<close> is 0 or 1, \<^verbatim>\<open>handleToggleStatus\<close> sends
  exactly one status update, with the row's id and the opposite value \<open>1 - enabled\<close>. The
  row's \<^verbatim>\<open>enabled\<close> becomes the new value if and only if the request comes back with an
  empty error channel; when the request fails (error channel filled, or rejected) the row
  is left as it was.
\<close>

theorem handleToggleStatus_flip:
  "enabled row = Some e \<and> (e = 0 \<or> e = 1) \<longrightarrow>
     requests (snd (state_of (handleToggleStatus upd row st)))
       = requests st @ [ReqRuleStatus (id_rule row) (1 - e)] \<and>
     (enabled (fst (state_of (handleToggleStatus upd row st))) = Some (1 - e)
        \<longleftrightarrow> without_error (upd (id_rule row) (1 - e))) \<and>
     (\<not> without_error (upd (id_rule row) (1 - e)) \<longrightarrow>
        fst (state_of (handleToggleStatus upd row st)) = row) \<and>
     (without_error (upd (id_rule row) (1 - e)) \<longrightarrow>
        fst (state_of (handleToggleStatus upd row st)) = row\<lparr>enabled := Some (1 - e)\<rparr>)"
  by (cases "upd (id_rule row) (1 - e)")
     (auto simp: handleToggleStatus_def Let_def)

theorem handleToggleStatus_flip_witness:
  "handleToggleStatus (\<lambda>i e. Response None JUndefined) sample_rule idle =
     Normal (sample_rule\<lparr>enabled := Some 0\<rparr>,
             \<lparr>requests = [ReqRuleStatus (Some ''r1'') 0],
              messages = [MsgSuccess ''common.updateSuccess''], emitted = []\<rparr>) \<and>
   handleToggleStatus (\<lambda>i e. Response None (JObj [(''code'', JNum 500)])) sample_rule idle =
     Normal (sample_rule, \<lparr>requests = [ReqRuleStatus (Some ''r1'') 0], messages = [], emitted = []\<rparr>)"
  using handleToggleStatus_flip [of sample_rule 1 "\<lambda>i e. Response None JUndefined" idle]
    handleToggleStatus_flip [of sample_rule 1 "\<lambda>i e. Response None (JObj [(''code'', JNum 500)])" idle]
  by (simp add: handleToggleStatus_def sample_rule_def idle_def Let_def)

text \<open>
  Claim C5. With the form instance present and the \<^verbatim>\<open>name\<close> of the form model empty,
  \<^verbatim>\<open>handleSubmit\<close> is left by the rejected validation before any request: the state,
  and with it the list of requests sent, is unchanged, so no create or update call is made.
\<close>

theorem handleSubmit_empty_name:
  "name (formModel st) = [] \<and> formRef st \<longrightarrow>
     handleSubmit srv st = Throw ValidationError st \<and>
     requests (state_of (handleSubmit srv st)) = requests st"
  by (simp add: handleSubmit_def validate_def rules_def createRequiredFormRule_def)

theorem handleSubmit_empty_name_witness:
  "handleSubmit groups_down (initial_rule_modal Add None)
     = Throw ValidationError (initial_rule_modal Add None) \<and>
   requests (state_of (handleSubmit groups_down (initial_rule_modal Add None))) = []"
  using handleSubmit_empty_name [of "initial_rule_modal Add None" groups_down]
  by (simp add: initial_rule_modal_def)

text \<open>
  Claim C7. When one of the four requests of \<^verbatim>\<open>loadOptions\<close> rejects, none of the four
  option lists is assigned, and \<^verbatim>\<open>loadOptions\<close> returns normally: the state differs from
  the one before only by the four requests sent.
\<close>

theorem loadOptions_all_or_nothing:
  "is_rejected (getAllForwardingScripts srv) \<or> is_rejected (deviceList srv 1 1000) \<or>
   is_rejected (deviceConfig srv 1 1000) \<or> is_rejected (deviceGroupTree srv) \<longrightarrow>
     returned (loadOptions srv st) \<and>
     scriptOptions (state_of (loadOptions srv st)) = scriptOptions st \<and>
     deviceOptions (state_of (loadOptions srv st)) = deviceOptions st \<and>
     productOptions (state_of (loadOptions srv st)) = productOptions st \<and>
     groupOptions (state_of (loadOptions srv st)) = groupOptions st \<and>
     loadOptions srv st =
       Normal (st\<lparr>requests := requests st @
                 [ReqAllScripts, ReqDeviceList 1 1000, ReqDeviceConfig 1 1000, ReqGroupTree]\<rparr>)"
  by (auto simp: loadOptions_def Let_def)

theorem loadOptions_all_or_nothing_witness:
  "is_rejected (deviceGroupTree groups_down) \<and>
   \<not> is_rejected (getAllForwardingScripts groups_down) \<and>
   returned (loadOptions groups_down (initial_rule_modal Add None)) \<and>
   scriptOptions (state_of (loadOptions groups_down (initial_rule_modal Add None))) = [] \<and>
   deviceOptions (state_of (loadOptions groups_down (initial_rule_modal Add None))) = [] \<and>
   productOptions (state_of (loadOptions groups_down (initial_rule_modal Add None))) = [] \<and>
   groupOptions (state_of (loadOptions groups_down (initial_rule_modal Add None))) = []"
proof -
  have a: "is_rejected (deviceGroupTree groups_down) \<and> \<not> is_rejected (getAllForwardingScripts groups_down)"
    by (simp add: groups_down_def is_rejected_def)
  show ?thesis
    using a loadOptions_all_or_nothing [of groups_down "initial_rule_modal Add None"]
    by (simp add: initial_rule_modal_def)
qed

text \<open>
  Claim C9. With an empty \<^verbatim>\<open>script_content\<close>, \<^verbatim>\<open>handleTest\<close> shows a warning and sends
  no request. With a non-empty one it sends exactly one test request, which carries the
  script content and the test data of the form.
\<close>

theorem handleTest_requires_script:
  "(script_content_t (formModel_t st) = [] \<longrightarrow>
      handleTest test st =
        Normal (st\<lparr>messages := messages st @ [MsgWarning ''dataForwarding.scriptRequired'']\<rparr>) \<and>
      requests (state_of (handleTest test st)) = requests st) \<and>
   (script_content_t (formModel_t st) \<noteq> [] \<longrightarrow>
      requests (state_of (handleTest test st)) =
        requests st @ [ReqTestScript (script_content_t (formModel_t st)) (test_data (formModel_t st))])"
  by (auto simp: handleTest_def Let_def split: response.splits option.splits)

theorem handleTest_requires_script_witness:
  "handleTest (\<lambda>s d. Response (Some \<lparr>success = True, output_text = d, error_text = ''''\<rparr>) JUndefined)
      (sample_tester '''') =
     Normal ((sample_tester '''')\<lparr>messages := [MsgWarning ''dataForwarding.scriptRequired'']\<rparr>) \<and>
   requests (state_of (handleTest
      (\<lambda>s d. Response (Some \<lparr>success = True, output_text = d, error_text = ''''\<rparr>) JUndefined)
      (sample_tester ''return payload''))) = [ReqTestScript ''return payload'' ''{}'']"
  using handleTest_requires_script [of "sample_tester ''''"
          "\<lambda>s d. Response (Some \<lparr>success = True, output_text = d, error_text = ''''\<rparr>) JUndefined"]
    handleTest_requires_script [of "sample_tester ''return payload''"
          "\<lambda>s d. Response (Some \<lparr>success = True, output_text = d, error_text = ''''\<rparr>) JUndefined"]
  by (simp add: sample_tester_def)

section \<open>Properties of the script editor\<close>

lemma defaultScriptContent_nonempty: "defaultScriptContent \<noteq> []"
  by (simp add: defaultScriptContent_def lines_def)

text \<open>
  Claim C10. In an edit session (the edited script has an id), when the detail request
  returns data whose \<^verbatim>\<open>script_content\<close> is missing or the empty string, the form's
  script content is set to the default Lua template, which is not empty.
\<close>

theorem loadEditData_default_template:
  "script_edit_id (props_editData_s st) = Some i \<and> i \<noteq> [] \<and>
   detail i = Response (Some dat) e \<and>
   (script_content dat = None \<or> script_content dat = Some []) \<longrightarrow>
     returned (loadEditData detail st) \<and>
     script_content_s (formModel_s (state_of (loadEditData detail st))) = defaultScriptContent \<and>
     script_content_s (formModel_s (state_of (loadEditData detail st))) \<noteq> []"
  using defaultScriptContent_nonempty
  by (auto simp: loadEditData_def Let_def or_string_def)

theorem loadEditData_default_template_witness:
  "returned (loadEditData (\<lambda>i. Response (Some sample_script) JUndefined) sample_script_modal) \<and>
   script_content_s (formModel_s (state_of
      (loadEditData (\<lambda>i. Response (Some sample_script) JUndefined) sample_script_modal)))
     = defaultScriptContent \<and>
   take 6 (script_content_s (formModel_s (state_of
      (loadEditData (\<lambda>i. Response (Some sample_script) JUndefined) sample_script_modal))))
     = ''-- '' @ bytes [0xE6, 0x95, 0xB0]"
proof -
  have a: "script_edit_id (props_editData_s sample_script_modal) = Some ''s1'' \<and>
           script_content sample_script = Some []"
    by (simp add: sample_script_modal_def sample_script_def script_edit_id_def)
  have b: "take 6 defaultScriptContent = ''-- '' @ bytes [0xE6, 0x95, 0xB0]"
    by (simp add: defaultScriptContent_def lines_def bytes_def)
  show ?thesis
    using a b loadEditData_default_template [of sample_script_modal "''s1''"
        "\<lambda>i. Response (Some sample_script) JUndefined" sample_script JUndefined]
    by simp
qed

section \<open>The reference implementation reads back what it writes\<close>

subsection \<open>String literals\<close>






subsection \<open>Number literals\<close>




















subsection \<open>Values\<close>
















subsection \<open>The configuration objects\<close>













lemma assign_mqtt_version: "version (assign_mqtt cfg m) = version m"
  by (simp add: assign_mqtt_def)

section \<open>The round trip of a target configuration\<close>

text \<open>
  The editor never holds a \<^verbatim>\<open>version\<close>: the reactive MQTT model is created with seven
  properties, \<^verbatim>\<open>editTargetConfig\<close> assigns those seven, the form has an input for each of
  them and for nothing else, and no function of the component writes another property. So
  the configurations that \<^verbatim>\<open>saveTargetConfig\<close> encodes have no \<^verbatim>\<open>version\<close>.
\<close>

lemma editor_version_kept:
  "version (mqttConfig (state_of (editTargetConfig parse i st))) = version (mqttConfig st) \<and>
   version (mqttConfig (state_of (saveTargetConfig stringify st))) = version (mqttConfig st) \<and>
   version (mqttConfig (addTarget stringify st)) = version (mqttConfig st) \<and>
   version (mqttConfig (removeTarget i st)) = version (mqttConfig st) \<and>
   version (mqttConfig (initial_rule_modal ty ed)) = JUndefined"
  by (simp add: editTargetConfig_def saveTargetConfig_def addTarget_def removeTarget_def
      initial_rule_modal_def initial_mqttConfig_def assign_mqtt_version Let_def
      split: option.splits)








end
